theory Spec2Isabelle
  imports Complex_Main "HOL-Library.Multiset"
begin

section \<open>Values, units and errors\<close>

text \<open>
  A Python float is a real number or NaN; \<open>None\<close> stands for NaN (and, for the result
  of a masked mean, for numpy's \<open>masked\<close> constant: both mean "no number").
  Rounding of floating-point arithmetic is not modelled: sums and quotients are exact.
\<close>

type_synonym float = "real option"

datatype temp_unit = degF | degC

datatype error =
    KeyError
  | ValueError string
  | NotImplementedError
  | UndefinedUnitError
  | RemoteFetchError

text \<open>
  Modelled from the spec: the unit conversion itself (pint's \<open>Quantity.to\<close>) is not part of
  the sources; section 6 of the spec gives it as linear, \<open>degF = degC * 9/5 + 32\<close>.
\<close>

fun convert :: "temp_unit \<Rightarrow> temp_unit \<Rightarrow> real \<Rightarrow> real" where
  "convert degC degF v = v * 9 / 5 + 32"
| "convert degF degC v = (v - 32) * 5 / 9"
| "convert degF degF v = v"
| "convert degC degC v = v"

text \<open>\<open>Q_(x, src).to(unit).magnitude\<close>: NaN stays NaN.\<close>

definition to_magnitude :: "temp_unit \<Rightarrow> temp_unit \<Rightarrow> float \<Rightarrow> float" where
  "to_magnitude src u q = map_option (convert src u) q"

text \<open>
  Modelled from the spec: \<open>ureg.parse_expression\<close> belongs to the unit registry, which is
  not part of the sources; the spec names the units \<open>degF\<close> and \<open>degC\<close>.
\<close>

definition parse_expression :: "string \<Rightarrow> error + temp_unit" where
  "parse_expression unit_name =
     (if unit_name = ''degF'' then Inr degF
      else if unit_name = ''degC'' then Inr degC
      else Inl UndefinedUnitError)"

section \<open>Time\<close>

text \<open>
  A point in time is the number of seconds since 0001-01-01 00:00 UTC. A
  \<open>datetime.timedelta\<close> is normalised by Python to whole days plus
  \<open>0 \<le> seconds < 86400\<close>; microseconds play no role in the code.
\<close>

type_synonym timestamp = int

record py_timedelta =
  days :: int
  seconds :: int

record consumption =
  start :: timestamp
  timedelta :: py_timedelta

text \<open>
  The dictionaries of \<open>weather.py\<close> are keyed by \<open>strftime("%Y%m%d")\<close> and
  \<open>strftime("%Y%m%d%H")\<close>, which name the calendar day, respectively the hour, of a
  point in time; the key is represented by the number of that day or hour.
\<close>

definition day_key :: "timestamp \<Rightarrow> int" where
  "day_key t = t div 86400"

definition hour_key :: "timestamp \<Rightarrow> int" where
  "hour_key t = t div 3600"

text \<open>
  The proleptic Gregorian calendar of Python's \<open>datetime\<close>: the number of days before
  1 January of a year, the first instant of a year, and the year a day number falls in
  (the computation of \<open>datetime._ord2ymd\<close> over cycles of 400, 100, 4 and 1 years).
\<close>

definition days_before_year :: "int \<Rightarrow> int" where
  "days_before_year y = (y - 1) * 365 + (y - 1) div 4 - (y - 1) div 100 + (y - 1) div 400"

definition jan1 :: "int \<Rightarrow> timestamp" where
  "jan1 y = 86400 * days_before_year y"

definition year_of_day :: "int \<Rightarrow> int" where
  "year_of_day n =
     (let n400 = n div 146097; r400 = n mod 146097;
          n100 = r400 div 36524; r100 = r400 mod 36524;
          n4 = r100 div 1461; r4 = r100 mod 1461;
          n1 = r4 div 365;
          y = n400 * 400 + n100 * 100 + n4 * 4 + n1 + 1
      in if n1 = 4 \<or> n100 = 4 then y - 1 else y)"

definition year_of :: "timestamp \<Rightarrow> int" where
  "year_of t = year_of_day (t div 86400)"

section \<open>Means\<close>

text \<open>\<open>np.mean\<close> of a list of floats: NaN for the empty list and when any entry is NaN.\<close>

definition np_mean :: "float list \<Rightarrow> float" where
  "np_mean xs =
     (case those xs of
        None \<Rightarrow> None
      | Some vs \<Rightarrow> if vs = [] then None else Some (sum_list vs / real (length vs)))"

text \<open>The unmasked entries of \<open>np.ma.masked_array(data, np.isnan(data))\<close>.\<close>

fun compressed :: "float list \<Rightarrow> real list" where
  "compressed [] = []"
| "compressed (None # xs) = compressed xs"
| "compressed (Some v # xs) = v # compressed xs"

text \<open>The mean of the known entries, undefined if there is none: \<open>np.mean\<close> of the
  masked array (\<open>masked\<close> when every entry is masked) and the \<open>mean()\<close> of a pandas
  resampling bucket (NaN when the bucket holds no number).\<close>

definition mean_skipna :: "float list \<Rightarrow> float" where
  "mean_skipna xs =
     (let vs = compressed xs
      in if vs = [] then None else Some (sum_list vs / real (length vs)))"

definition np_ma_mean :: "float list \<Rightarrow> float" where
  "np_ma_mean xs = mean_skipna xs"

section \<open>Interval averages (weather.py)\<close>

text \<open>
  \<open>GSODWeatherSource.get_consumption_average_temperature\<close>: one lookup per day,
  \<open>self._data[key]\<close> raising \<open>KeyError\<close> for a missing day. The stored quantities
  carry the source unit \<open>degF\<close>.
\<close>

fun GSOD_daily_temps :: "(int \<rightharpoonup> float) \<Rightarrow> temp_unit \<Rightarrow> timestamp \<Rightarrow> nat list \<Rightarrow> error + float list" where
  "GSOD_daily_temps data u st [] = Inr []"
| "GSOD_daily_temps data u st (d # ds) =
     (case data (day_key (st + 86400 * int d)) of
        None \<Rightarrow> Inl KeyError
      | Some temp \<Rightarrow>
          (case GSOD_daily_temps data u st ds of
             Inl e \<Rightarrow> Inl e
           | Inr avg_temps \<Rightarrow> Inr (to_magnitude degF u temp # avg_temps)))"

definition GSOD_get_consumption_average_temperature ::
  "(int \<rightharpoonup> float) \<Rightarrow> consumption \<Rightarrow> temp_unit \<Rightarrow> error + float" where
  "GSOD_get_consumption_average_temperature data c u =
     (case GSOD_daily_temps data u (start c) [0..<nat (days (timedelta c))] of
        Inl e \<Rightarrow> Inl e
      | Inr avg_temps \<Rightarrow> Inr (np_mean avg_temps))"

text \<open>
  \<open>ISDWeatherSource.get_consumption_average_temperature\<close>: one lookup per hour,
  \<open>self._data.get(key, null)\<close> with \<open>null\<close> a NaN quantity, then the masked mean.
  The source unit is \<open>degC\<close>.
\<close>

definition ISD_n_hours :: "consumption \<Rightarrow> nat" where
  "ISD_n_hours c = nat (days (timedelta c) * 24 + seconds (timedelta c) div 3600)"

definition ISD_hourly_temps :: "(int \<rightharpoonup> float) \<Rightarrow> temp_unit \<Rightarrow> timestamp \<Rightarrow> nat list \<Rightarrow> float list" where
  "ISD_hourly_temps data u st hs =
     map (\<lambda>h. to_magnitude degC u
                (case data (hour_key (st + int h * 3600)) of None \<Rightarrow> None | Some q \<Rightarrow> q)) hs"

definition ISD_get_consumption_average_temperature ::
  "(int \<rightharpoonup> float) \<Rightarrow> consumption \<Rightarrow> temp_unit \<Rightarrow> error + float" where
  "ISD_get_consumption_average_temperature data c u =
     Inr (np_ma_mean (ISD_hourly_temps data u (start c) [0..<ISD_n_hours c]))"

text \<open>
  \<open>WeatherSourceBase.get_average_temperature\<close>. The method
  \<open>get_consumption_average_temperature\<close> of the subclass is the parameter \<open>gcat\<close>;
  \<open>consumption_history.get\<close> (a class outside the sources) is the parameter \<open>get\<close>.
  The loop appends one average per consumption and stops at the first exception.
\<close>

fun append_avg_temps ::
  "(consumption \<Rightarrow> temp_unit \<Rightarrow> error + float) \<Rightarrow> temp_unit \<Rightarrow> consumption list \<Rightarrow> error + float list" where
  "append_avg_temps gcat u [] = Inr []"
| "append_avg_temps gcat u (c # cs) =
     (case gcat c u of
        Inl e \<Rightarrow> Inl e
      | Inr t \<Rightarrow>
          (case append_avg_temps gcat u cs of
             Inl e \<Rightarrow> Inl e
           | Inr avg_temps \<Rightarrow> Inr (t # avg_temps)))"

definition get_average_temperature ::
  "(consumption \<Rightarrow> temp_unit \<Rightarrow> error + float) \<Rightarrow> ('fuel \<Rightarrow> consumption list) \<Rightarrow> 'fuel \<Rightarrow> string
     \<Rightarrow> error + float list" where
  "get_average_temperature gcat get fuel_type unit_name =
     (case parse_expression unit_name of
        Inl e \<Rightarrow> Inl e
      | Inr u \<Rightarrow> append_avg_temps gcat u (get fuel_type))"

section \<open>The temperature series (pandas operations used by noaa.py)\<close>

text \<open>
  A pandas \<open>Series\<close> with a \<open>DatetimeIndex\<close>: the rows in order, each a point in time and
  a float. Before a resampling the same point in time may occur in several rows.
\<close>

type_synonym series = "(timestamp \<times> float) list"

definition index_of :: "series \<Rightarrow> timestamp set" where
  "index_of s = fst ` set s"

text \<open>\<open>pd.date_range(a, b, freq)\<close>: the points \<open>a, a + w, ...\<close> up to \<open>b\<close>, ends included.\<close>

definition date_range :: "timestamp \<Rightarrow> timestamp \<Rightarrow> int \<Rightarrow> timestamp list" where
  "date_range a b w = map (\<lambda>i. a + w * i) [0..(b - a) div w]"

text \<open>\<open>pd.Series(None, index=dates, dtype=float)\<close>: NaN at every date.\<close>

definition empty_on :: "timestamp list \<Rightarrow> series" where
  "empty_on dates = map (\<lambda>t. (t, None)) dates"

text \<open>\<open>series[key] = v\<close>: overwrites the row of an existing key, appends a row for a new one.\<close>

definition set_item :: "series \<Rightarrow> timestamp \<Rightarrow> float \<Rightarrow> series" where
  "set_item s k v =
     (if k \<in> index_of s then map (\<lambda>(t, x). if t = k then (t, v) else (t, x)) s
      else s @ [(k, v)])"

definition sort_index :: "series \<Rightarrow> series" where
  "sort_index s = sort_key fst s"

text \<open>
  \<open>.resample(freq).mean()\<close> on a sorted series, \<open>w\<close> the width of the frequency in
  seconds: one row for every bucket from the bucket of the first row to the bucket of the
  last, labelled by the start of the bucket and holding the mean of the numbers that fall
  in it (NaN if there is none). An empty series stays empty.
\<close>

definition resample_mean :: "int \<Rightarrow> series \<Rightarrow> series" where
  "resample_mean w s =
     (if s = [] then []
      else map (\<lambda>b. (b * w, mean_skipna (map snd (filter (\<lambda>p. fst p div w = b) s))))
               [fst (hd s) div w..fst (last s) div w])"

text \<open>\<open>tempC.append(new_series).sort_index().resample(freq).mean()\<close>.\<close>

definition merge :: "int \<Rightarrow> series \<Rightarrow> series \<Rightarrow> series" where
  "merge w tempC new_series = resample_mean w (sort_index (tempC @ new_series))"

section \<open>The NOAA weather sources (weather/noaa.py)\<close>

datatype source_class = GSOD | ISD

text \<open>The class attribute \<open>freq\<close> ("D" or "H"), as a width in seconds.\<close>

fun freq :: "source_class \<Rightarrow> int" where
  "freq GSOD = 86400"
| "freq ISD = 3600"

text \<open>
  The state of a source object: the series \<open>tempC\<close> and the set
  \<open>_year_fetches_attempted\<close>; with them the two collaborators' sides that the object
  writes to, the years requested from the client in order, and the series last written by
  \<open>save_to_cache\<close>.
\<close>

record source_state =
  tempC :: series
  year_fetches_attempted :: "int set"
  fetches :: "int list"
  cache :: series

text \<open>
  The client (\<open>NOAAClient.get_gsod_data\<close>, \<open>get_isd_data\<close>, outside the sources) is a
  parameter: for a year it returns the readings, each a point in time with \<open>temp_C\<close>, or
  raises (section 6 of the spec allows both an empty answer and a transport error).
\<close>

type_synonym client = "int \<Rightarrow> error + (timestamp \<times> float) list"

text \<open>Modelled from the spec: \<open>save_to_cache\<close> of the cached base class, outside the
  sources; section 6 gives it as overwriting the stored series with the current one.\<close>

definition save_to_cache :: "source_state \<Rightarrow> source_state" where
  "save_to_cache s = s\<lparr>cache := tempC s\<rparr>"

definition year_fetch_attempted :: "source_state \<Rightarrow> int \<Rightarrow> bool" where
  "year_fetch_attempted s year = (year \<in> year_fetches_attempted s)"

text \<open>\<open>year_existence_format.format(year) in self.tempC\<close>: the first day (GSOD) or hour
  (ISD) of the year is a key of the series.\<close>

definition year_in_series :: "source_state \<Rightarrow> int \<Rightarrow> bool" where
  "year_in_series s year = (jan1 year \<in> index_of (tempC s))"

fun empty_series :: "source_class \<Rightarrow> int \<Rightarrow> series" where
  "empty_series GSOD year = empty_on (date_range (jan1 year) (jan1 (year + 1) - 86400) 86400)"
| "empty_series ISD year = empty_on (butlast (date_range (jan1 year) (jan1 (year + 1)) 3600))"

text \<open>The loops over the fetched readings: a reading that is not null is written into
  \<open>new_series\<close>, for ISD at its time cut down to the hour.\<close>

fun reading_key :: "source_class \<Rightarrow> timestamp \<Rightarrow> timestamp" where
  "reading_key GSOD t = t"
| "reading_key ISD t = 3600 * (t div 3600)"

fun fill_series :: "source_class \<Rightarrow> series \<Rightarrow> (timestamp \<times> float) list \<Rightarrow> series" where
  "fill_series k new_series [] = new_series"
| "fill_series k new_series ((t, temp_C) # rest) =
     fill_series k
       (case temp_C of
          None \<Rightarrow> new_series
        | Some v \<Rightarrow> set_item new_series (reading_key k t) (Some v))
       rest"

text \<open>
  \<open>GSODWeatherSource.add_year\<close> and \<open>ISDWeatherSource.add_year\<close>, which differ in the
  frequency, the empty series and the key of a reading only. The result is the exception
  raised, if any, and the state of the object afterwards.
\<close>

definition add_year ::
  "source_class \<Rightarrow> client \<Rightarrow> int \<Rightarrow> bool \<Rightarrow> source_state \<Rightarrow> error option \<times> source_state" where
  "add_year k client year force s =
     (if \<not> force \<and> year_fetch_attempted s year then
        (if year_in_series s year then (None, s)
         else (None, save_to_cache
                       (s\<lparr>tempC := merge (freq k) (tempC s) (empty_series k year)\<rparr>)))
      else
        (case client year of
           Inl e \<Rightarrow> (Some e, s\<lparr>fetches := fetches s @ [year]\<rparr>)
         | Inr data \<Rightarrow>
             (None,
              (save_to_cache
                 (s\<lparr>fetches := fetches s @ [year],
                    tempC := merge (freq k) (tempC s)
                               (fill_series k (empty_series k year) data)\<rparr>))
              \<lparr>year_fetches_attempted := insert year (year_fetches_attempted s)\<rparr>)))"

text \<open>A \<open>for year in years: self.add_year(year, force)\<close> loop, left at the first exception.\<close>

fun add_years ::
  "source_class \<Rightarrow> client \<Rightarrow> int list \<Rightarrow> bool \<Rightarrow> source_state \<Rightarrow> error option \<times> source_state" where
  "add_years k client [] force s = (None, s)"
| "add_years k client (year # years) force s =
     (case add_year k client year force s of
        (Some e, s') \<Rightarrow> (Some e, s')
      | (None, s') \<Rightarrow> add_years k client years force s')"

definition add_year_range ::
  "source_class \<Rightarrow> client \<Rightarrow> int \<Rightarrow> int \<Rightarrow> bool \<Rightarrow> source_state \<Rightarrow> error option \<times> source_state" where
  "add_year_range k client start_year end_year force s =
     add_years k client [start_year..end_year] force s"

text \<open>\<open>_check_for_recent_data\<close>; \<open>today\<close> is the day number of \<open>date.today()\<close>.\<close>

definition check_for_recent_data ::
  "source_class \<Rightarrow> client \<Rightarrow> int \<Rightarrow> source_state \<Rightarrow> error option \<times> source_state" where
  "check_for_recent_data k client today s =
     (let yesterday = today - 1
      in if map_of (tempC s) (86400 * yesterday) = Some None
         then add_year k client (year_of_day yesterday) True s
         else (None, s))"

text \<open>
  \<open>NOAAWeatherSourceBase.__init__\<close>. The series loaded by the cached base class is the
  parameter \<open>cached\<close>.
\<close>

definition init_years ::
  "source_class \<Rightarrow> client \<Rightarrow> int option \<Rightarrow> int option \<Rightarrow> int \<Rightarrow> source_state
     \<Rightarrow> error option \<times> source_state" where
  "init_years k client start_year end_year today s =
     (case (start_year, end_year) of
        (Some a, Some b) \<Rightarrow> add_year_range k client a b False s
      | (Some a, None) \<Rightarrow> add_year_range k client a (year_of_day today) False s
      | (None, Some b) \<Rightarrow> add_year_range k client (year_of_day today) b False s
      | (None, None) \<Rightarrow> (None, s))"

definition init ::
  "source_class \<Rightarrow> client \<Rightarrow> series \<Rightarrow> int option \<Rightarrow> int option \<Rightarrow> int
     \<Rightarrow> error option \<times> source_state" where
  "init k client cached start_year end_year today =
     (case init_years k client start_year end_year today
             \<lparr>tempC = cached, year_fetches_attempted = {}, fetches = [], cache = cached\<rparr> of
        (Some e, s) \<Rightarrow> (Some e, s)
      | (None, s) \<Rightarrow> check_for_recent_data k client today s)"

text \<open>
  A \<open>DatetimeIndex\<close>: its declared frequency, if any, and its points in time.
\<close>

record datetime_index =
  index_freq :: "string option"
  stamps :: "timestamp list"

text \<open>\<open>_verify_index_presence\<close>: \<open>add_year\<close> for every year of the index (the order of the
  keys of the grouping is not fixed by the code; here each year at its first occurrence).\<close>

definition verify_index_presence ::
  "source_class \<Rightarrow> client \<Rightarrow> datetime_index \<Rightarrow> source_state \<Rightarrow> error option \<times> source_state" where
  "verify_index_presence k client index s =
     add_years k client (remdups (map year_of (stamps index))) False s"

text \<open>
  Modelled from the spec: \<open>_unit_convert\<close> of the cached base class, outside the sources;
  the stored series is in \<open>degC\<close> and the result is "converted to the requested unit".
  The selection \<open>[index]\<close> gives NaN at a point in time that is not a key.
\<close>

definition select_converted :: "series \<Rightarrow> datetime_index \<Rightarrow> temp_unit \<Rightarrow> series" where
  "select_converted s index u =
     map (\<lambda>t. (t, to_magnitude degC u (case map_of s t of None \<Rightarrow> None | Some x \<Rightarrow> x)))
         (stamps index)"

definition daily_indexed_temperatures ::
  "source_state \<Rightarrow> datetime_index \<Rightarrow> temp_unit \<Rightarrow> error + series" where
  "daily_indexed_temperatures s index u =
     Inr (select_converted (resample_mean 86400 (tempC s)) index u)"

text \<open>\<open>_hourly_indexed_temperatures\<close>: the base class raises, \<open>ISDWeatherSource\<close>
  overrides it.\<close>

fun hourly_indexed_temperatures ::
  "source_class \<Rightarrow> source_state \<Rightarrow> datetime_index \<Rightarrow> temp_unit \<Rightarrow> error + series" where
  \<open>hourly_indexed_temperatures GSOD s index u =
     Inl (ValueError ''DatetimeIndex frequency "H" not supported, please resample to at least daily frequency ("D").'')\<close>
| "hourly_indexed_temperatures ISD s index u =
     Inr (select_converted (resample_mean 3600 (tempC s)) index u)"

definition freq_name :: "string option \<Rightarrow> string" where
  "freq_name f = (case f of None \<Rightarrow> ''None'' | Some n \<Rightarrow> n)"

definition indexed_temperatures ::
  "source_class \<Rightarrow> client \<Rightarrow> datetime_index \<Rightarrow> temp_unit \<Rightarrow> source_state
     \<Rightarrow> (error + series) \<times> source_state" where
  \<open>indexed_temperatures k client index u s =
     (case verify_index_presence k client index s of
        (Some e, s') \<Rightarrow> (Inl e, s')
      | (None, s') \<Rightarrow>
          (if index_freq index = Some ''D'' then daily_indexed_temperatures s' index u
           else if index_freq index = Some ''H'' then hourly_indexed_temperatures k s' index u
           else Inl (ValueError (''DatetimeIndex frequency "'' @ freq_name (index_freq index)
                                   @ ''" not supported, please resample.'')),
           s'))\<close>

section \<open>Predicates of the statements about the series\<close>

text \<open>The known values that a series holds in a bucket, and the mean of a list of numbers.\<close>

definition known_in_bucket :: "int \<Rightarrow> series \<Rightarrow> int \<Rightarrow> real list" where
  "known_in_bucket w s b = compressed (map snd (filter (\<lambda>p. fst p div w = b) s))"

definition mean :: "real list \<Rightarrow> real" where
  "mean vs = sum_list vs / real (length vs)"

text \<open>
  A series and a batch agree when, in every bucket where both hold known values, the mean
  of the one's values is the mean of the other's. This is so when the series is empty,
  when it holds nothing where the batch has values, and when both hold the same value.
\<close>

definition agree :: "int \<Rightarrow> series \<Rightarrow> series \<Rightarrow> bool" where
  "agree w s n =
     (\<forall>p \<in> set n.
        known_in_bucket w s (fst p div w) = []
        \<or> known_in_bucket w n (fst p div w) = []
        \<or> mean (known_in_bucket w s (fst p div w)) = mean (known_in_bucket w n (fst p div w)))"

text \<open>The invariant of the data model: every timestamp of the series is a multiple of the
  native frequency.\<close>

definition on_grid :: "int \<Rightarrow> series \<Rightarrow> bool" where
  "on_grid w s = (\<forall>p \<in> set s. fst p mod w = 0)"

text \<open>The native-frequency timestamps of a year: the days (GSOD) or hours (ISD) from its
  first instant up to, and without, the first instant of the next year.\<close>

definition native_timestamp :: "source_class \<Rightarrow> int \<Rightarrow> timestamp \<Rightarrow> bool" where
  "native_timestamp k year t =
     (jan1 year \<le> t \<and> t < jan1 (year + 1) \<and> (t - jan1 year) mod freq k = 0)"

text \<open>
  The invariant of a source object: the series is on the grid of the source's frequency,
  and holds every native timestamp of every year that is marked as attempted.
\<close>

definition covers_year :: "source_class \<Rightarrow> series \<Rightarrow> int \<Rightarrow> bool" where
  "covers_year k s year = (\<forall>t. native_timestamp k year t \<longrightarrow> t \<in> index_of s)"

definition source_invariant :: "source_class \<Rightarrow> source_state \<Rightarrow> bool" where
  "source_invariant k s =
     (on_grid (freq k) (tempC s) \<and> (\<forall>year \<in> year_fetches_attempted s. covers_year k (tempC s) year))"

section \<open>Properties of the interval averages\<close>

lemma those_map_Some: "those (map (\<lambda>x. Some (f x)) xs) = Some (map f xs)"
  by (induction xs) simp_all

lemma np_mean_known:
  "np_mean (map (\<lambda>x. Some (f x)) xs) =
     (if xs = [] then None else Some (sum_list (map f xs) / real (length xs)))"
  by (simp add: np_mean_def those_map_Some)

lemma compressed_map_Some: "compressed (map (\<lambda>x. Some (f x)) xs) = map f xs"
  by (induction xs) simp_all

lemma compressed_all_None: "\<forall>x\<in>set xs. x = None \<Longrightarrow> compressed xs = []"
  by (induction xs) auto

lemma mean_skipna_known:
  "mean_skipna (map (\<lambda>x. Some (f x)) xs) =
     (if xs = [] then None else Some (sum_list (map f xs) / real (length xs)))"
  by (simp add: mean_skipna_def compressed_map_Some)

lemma GSOD_daily_temps_known:
  assumes "\<forall>d\<in>set ds. data (day_key (st + 86400 * int d)) = Some (Some (vs d))"
  shows "GSOD_daily_temps data u st ds = Inr (map (\<lambda>d. Some (convert degF u (vs d))) ds)"
  using assms by (induction ds) (simp_all add: to_magnitude_def)

lemma ISD_hourly_temps_known:
  assumes "\<forall>h\<in>set hs. data (hour_key (st + int h * 3600)) = Some (Some (vs h))"
  shows "ISD_hourly_temps data u st hs = map (\<lambda>h. Some (convert degC u (vs h))) hs"
  using assms by (simp add: ISD_hourly_temps_def to_magnitude_def)

lemma dby2014: "days_before_year 2014 = 735233"
  by (simp add: days_before_year_def)

text \<open>
  C1: over an interval whose days (GSOD) or hours (ISD) all hold a known, non-null value,
  the interval average is the arithmetic mean of these values converted to the requested
  unit. An interval of no day or hour has no values to average and gives NaN.
\<close>

theorem average_of_known_values:
  "((\<forall>d < nat (days (timedelta c)). data (day_key (start c + 86400 * int d)) = Some (Some (vs d)))
      \<longrightarrow> GSOD_get_consumption_average_temperature data c u =
            Inr (if nat (days (timedelta c)) = 0 then None
                 else Some (sum_list (map (\<lambda>d. convert degF u (vs d)) [0..<nat (days (timedelta c))])
                            / real (nat (days (timedelta c))))))
   \<and> ((\<forall>h < ISD_n_hours c'. data' (hour_key (start c' + int h * 3600)) = Some (Some (vs' h)))
      \<longrightarrow> ISD_get_consumption_average_temperature data' c' u' =
            Inr (if ISD_n_hours c' = 0 then None
                 else Some (sum_list (map (\<lambda>h. convert degC u' (vs' h)) [0..<ISD_n_hours c'])
                            / real (ISD_n_hours c'))))"
proof (intro conjI impI)
  assume a: "\<forall>d < nat (days (timedelta c)). data (day_key (start c + 86400 * int d)) = Some (Some (vs d))"
  have "GSOD_daily_temps data u (start c) [0..<nat (days (timedelta c))]
          = Inr (map (\<lambda>d. Some (convert degF u (vs d))) [0..<nat (days (timedelta c))])"
    by (rule GSOD_daily_temps_known) (simp add: a)
  then show "GSOD_get_consumption_average_temperature data c u =
            Inr (if nat (days (timedelta c)) = 0 then None
                 else Some (sum_list (map (\<lambda>d. convert degF u (vs d)) [0..<nat (days (timedelta c))])
                            / real (nat (days (timedelta c)))))"
    by (simp add: GSOD_get_consumption_average_temperature_def np_mean_known)
next
  assume a: "\<forall>h < ISD_n_hours c'. data' (hour_key (start c' + int h * 3600)) = Some (Some (vs' h))"
  have "ISD_hourly_temps data' u' (start c') [0..<ISD_n_hours c']
          = map (\<lambda>h. Some (convert degC u' (vs' h))) [0..<ISD_n_hours c']"
    by (rule ISD_hourly_temps_known) (simp add: a)
  then show "ISD_get_consumption_average_temperature data' c' u' =
            Inr (if ISD_n_hours c' = 0 then None
                 else Some (sum_list (map (\<lambda>h. convert degC u' (vs' h)) [0..<ISD_n_hours c'])
                            / real (ISD_n_hours c')))"
    by (simp add: ISD_get_consumption_average_temperature_def np_ma_mean_def mean_skipna_known)
qed

text \<open>The example of the claim: 10 and 20 degrees Celsius (50 and 68 degrees Fahrenheit
  as GSOD stores them) average to 15 degrees Celsius, 59 degrees Fahrenheit.\<close>

theorem average_of_known_values_witness:
  "GSOD_get_consumption_average_temperature
      [day_key (jan1 2014) \<mapsto> Some 50, day_key (jan1 2014) + 1 \<mapsto> Some 68]
      \<lparr>start = jan1 2014, timedelta = \<lparr>days = 2, seconds = 0\<rparr>\<rparr> degC = Inr (Some 15)
   \<and> ISD_get_consumption_average_temperature
      [hour_key (jan1 2014) \<mapsto> Some 10, hour_key (jan1 2014) + 1 \<mapsto> Some 20]
      \<lparr>start = jan1 2014, timedelta = \<lparr>days = 0, seconds = 7200\<rparr>\<rparr> degF = Inr (Some 59)"
  using average_of_known_values
    [of "\<lparr>start = jan1 2014, timedelta = \<lparr>days = 2, seconds = 0\<rparr>\<rparr>"
        "[day_key (jan1 2014) \<mapsto> Some 50, day_key (jan1 2014) + 1 \<mapsto> Some 68]"
        "\<lambda>d. if d = 0 then 50 else 68" degC
        "\<lparr>start = jan1 2014, timedelta = \<lparr>days = 0, seconds = 7200\<rparr>\<rparr>"
        "[hour_key (jan1 2014) \<mapsto> Some 10, hour_key (jan1 2014) + 1 \<mapsto> Some 20]"
        "\<lambda>h. if h = 0 then 10 else 20" degF]
  by (simp add: jan1_def dby2014 day_key_def hour_key_def ISD_n_hours_def
        numeral_2_eq_2 less_Suc_eq)

text \<open>
  The hourly source answers an interval whose hours are all null or missing with an
  undefined result, and does not raise.
\<close>

lemma ISD_all_null_undefined:
  assumes "\<forall>h < ISD_n_hours c. data (hour_key (start c + int h * 3600)) \<in> {None, Some None}"
  shows "ISD_get_consumption_average_temperature data c u = Inr None"
proof -
  have "\<forall>x \<in> set (ISD_hourly_temps data u (start c) [0..<ISD_n_hours c]). x = None"
    using assms by (auto simp: ISD_hourly_temps_def to_magnitude_def split: option.splits)
  then have "compressed (ISD_hourly_temps data u (start c) [0..<ISD_n_hours c]) = []"
    by (rule compressed_all_None)
  then show ?thesis
    by (simp add: ISD_get_consumption_average_temperature_def np_ma_mean_def mean_skipna_def)
qed

text \<open>
  C3: an interval whose points are all missing should give an undefined result and never
  an exception. The daily source reads \<open>self._data[key]\<close> without a default: over a day
  that is missing from its data it raises \<open>KeyError\<close>, where the hourly source falls back
  to a NaN quantity.
\<close>

theorem GSOD_missing_day_raises:
  "GSOD_get_consumption_average_temperature Map.empty
      \<lparr>start = jan1 2014, timedelta = \<lparr>days = 1, seconds = 0\<rparr>\<rparr> degC = Inl KeyError"
  by (simp add: GSOD_get_consumption_average_temperature_def)

lemma append_avg_temps_Inr:
  "append_avg_temps gcat u cs = Inr avg \<Longrightarrow>
     length avg = length cs \<and> (\<forall>i<length avg. gcat (cs ! i) u = Inr (avg ! i))"
proof (induction cs arbitrary: avg)
  case Nil
  then show ?case by simp
next
  case (Cons c cs)
  from Cons.prems obtain t r where t: "gcat c u = Inr t" and r: "append_avg_temps gcat u cs = Inr r"
    and avg: "avg = t # r"
    by (auto split: sum.splits)
  from Cons.IH [OF r] have "length r = length cs" and "\<forall>i<length r. gcat (cs ! i) u = Inr (r ! i)"
    by simp_all
  with t avg show ?case by (auto simp: nth_Cons split: nat.splits)
qed

lemma append_avg_temps_total:
  "\<forall>c\<in>set cs. \<exists>t. gcat c u = Inr t \<Longrightarrow> \<exists>avg. append_avg_temps gcat u cs = Inr avg"
  by (induction cs) auto

text \<open>
  C9: the batch query returns one average per consumption period, in the order in which
  \<open>consumption_history.get\<close> lists the periods: whenever it returns, the result has the
  length of that list and holds at position \<open>i\<close> the average of the period at position
  \<open>i\<close>; and it returns whenever the average of every period does.
\<close>

theorem get_average_temperature_in_order:
  assumes "parse_expression unit_name = Inr u"
  shows "(\<forall>avg. get_average_temperature gcat get fuel_type unit_name = Inr avg \<longrightarrow>
            length avg = length (get fuel_type) \<and>
            (\<forall>i<length avg. gcat (get fuel_type ! i) u = Inr (avg ! i)))
       \<and> ((\<forall>c\<in>set (get fuel_type). \<exists>t. gcat c u = Inr t) \<longrightarrow>
            (\<exists>avg. get_average_temperature gcat get fuel_type unit_name = Inr avg))"
  using assms append_avg_temps_Inr [of gcat u "get fuel_type"]
    append_avg_temps_total [of "get fuel_type" gcat u]
  by (simp add: get_average_temperature_def)

theorem get_average_temperature_in_order_witness:
  "parse_expression ''degF'' = Inr degF
   \<and> (\<exists>avg. get_average_temperature
          (ISD_get_consumption_average_temperature [hour_key (jan1 2014) \<mapsto> Some 10])
          (\<lambda>fuel. if fuel = ''electricity''
             then [\<lparr>start = jan1 2014, timedelta = \<lparr>days = 0, seconds = 3600\<rparr>\<rparr>,
                   \<lparr>start = jan1 2014 + 3600, timedelta = \<lparr>days = 0, seconds = 3600\<rparr>\<rparr>]
             else [])
          ''electricity'' ''degF'' = Inr avg
        \<and> length avg = 2)"
  using get_average_temperature_in_order
    [of "''degF''" degF
        "ISD_get_consumption_average_temperature [hour_key (jan1 2014) \<mapsto> Some 10]"
        "\<lambda>fuel. if fuel = ''electricity''
             then [\<lparr>start = jan1 2014, timedelta = \<lparr>days = 0, seconds = 3600\<rparr>\<rparr>,
                   \<lparr>start = jan1 2014 + 3600, timedelta = \<lparr>days = 0, seconds = 3600\<rparr>\<rparr>]
             else []"
        "''electricity''"]
  by (auto simp: parse_expression_def ISD_get_consumption_average_temperature_def)

section \<open>Properties of the year fetching\<close>

text \<open>What one \<open>add_year\<close> does to the log of fetches and to the attempted set, and whether it raises.\<close>

lemma add_year_fetches:
  "fetches (snd (add_year k client year force s)) =
     (if \<not> force \<and> year \<in> year_fetches_attempted s then fetches s else fetches s @ [year])"
  by (simp add: add_year_def year_fetch_attempted_def save_to_cache_def split: sum.splits)

lemma add_year_attempted:
  "year_fetches_attempted (snd (add_year k client year force s)) =
     (if (force \<or> year \<notin> year_fetches_attempted s) \<and> \<not> isl (client year)
      then insert year (year_fetches_attempted s) else year_fetches_attempted s)"
  by (auto simp add: add_year_def year_fetch_attempted_def save_to_cache_def split: sum.splits)

lemma add_year_returns:
  "fst (add_year k client year force s) =
     (if \<not> force \<and> year \<in> year_fetches_attempted s then None
      else case client year of Inl e \<Rightarrow> Some e | Inr d \<Rightarrow> None)"
  by (simp add: add_year_def year_fetch_attempted_def save_to_cache_def split: sum.splits)

lemma add_years_step:
  "add_years k client (year # years) force s =
     (case fst (add_year k client year force s) of
        Some e \<Rightarrow> (Some e, snd (add_year k client year force s))
      | None \<Rightarrow> add_years k client years force (snd (add_year k client year force s)))"
  by (cases "add_year k client year force s") (auto simp: add_years.simps(2) split: option.splits)

declare add_years.simps(2) [simp del]

lemma add_years_attempted_mono:
  "year_fetches_attempted s \<subseteq> year_fetches_attempted (snd (add_years k client years force s))"
proof (induction years arbitrary: s)
  case Nil
  then show ?case by simp
next
  case (Cons year years)
  have "year_fetches_attempted s \<subseteq> year_fetches_attempted (snd (add_year k client year force s))"
    by (auto simp: add_year_attempted)
  with Cons.IH [of "snd (add_year k client year force s)"] show ?case
    by (auto simp: add_years_step split: option.splits)
qed

lemma add_years_returned_attempted:
  "fst (add_years k client years False s) = None
     \<Longrightarrow> set years \<subseteq> year_fetches_attempted (snd (add_years k client years False s))"
proof (induction years arbitrary: s)
  case Nil
  then show ?case by simp
next
  case (Cons year years)
  let ?s' = "snd (add_year k client year False s)"
  from Cons.prems have ret: "fst (add_year k client year False s) = None"
    and rest: "fst (add_years k client years False ?s') = None"
    by (auto simp: add_years_step split: option.splits)
  from ret have "year \<in> year_fetches_attempted ?s'"
    by (auto simp: add_year_returns add_year_attempted split: if_splits sum.splits)
  moreover have "year_fetches_attempted ?s'
      \<subseteq> year_fetches_attempted (snd (add_years k client years False ?s'))"
    by (rule add_years_attempted_mono)
  moreover note Cons.IH [OF rest]
  ultimately show ?case using ret by (auto simp: add_years_step)
qed

lemma add_years_all_attempted:
  "set years \<subseteq> year_fetches_attempted s
     \<Longrightarrow> fst (add_years k client years False s) = None
         \<and> fetches (snd (add_years k client years False s)) = fetches s"
proof (induction years arbitrary: s)
  case Nil
  then show ?case by simp
next
  case (Cons year years)
  let ?s' = "snd (add_year k client year False s)"
  from Cons.prems have y: "year \<in> year_fetches_attempted s" by simp
  then have ret: "fst (add_year k client year False s) = None" and f: "fetches ?s' = fetches s"
    by (simp_all add: add_year_returns add_year_fetches)
  have "year_fetches_attempted s \<subseteq> year_fetches_attempted ?s'"
    by (auto simp: add_year_attempted)
  with Cons.prems have "set years \<subseteq> year_fetches_attempted ?s'" by auto
  from Cons.IH [OF this] ret f show ?case by (simp add: add_years_step)
qed

lemma add_years_fetch_count:
  "count_list (fetches (snd (add_years k client years force s))) y
     \<le> count_list (fetches s) y + count_list years y"
proof (induction years arbitrary: s)
  case Nil
  then show ?case by simp
next
  case (Cons year years)
  let ?s' = "snd (add_year k client year force s)"
  have one: "count_list (fetches ?s') y \<le> count_list (fetches s) y + (if year = y then 1 else 0)"
    by (simp add: add_year_fetches)
  show ?case
  proof (cases "fst (add_year k client year force s)")
    case None
    with Cons.IH [of ?s'] one show ?thesis by (auto simp add: add_years_step split: if_splits)
  next
    case (Some e)
    with one show ?thesis by (auto simp add: add_years_step split: if_splits)
  qed
qed

lemma count_list_distinct: "distinct xs \<Longrightarrow> count_list xs y \<le> 1"
  by (induction xs) auto

lemma add_years_returns:
  "\<forall>y\<in>set years. \<not> isl (client y) \<Longrightarrow> fst (add_years k client years force s) = None"
proof (induction years arbitrary: s)
  case Nil
  then show ?case by simp
next
  case (Cons year years)
  then have "fst (add_year k client year force s) = None"
    by (auto simp: add_year_returns split: sum.splits)
  with Cons show ?case by (simp add: add_years_step)
qed

lemma check_for_recent_data_fetches:
  "fetches (snd (check_for_recent_data k client today s)) =
     (if map_of (tempC s) (86400 * (today - 1)) = Some None
      then fetches s @ [year_of_day (today - 1)] else fetches s)"
  by (simp add: check_for_recent_data_def add_year_fetches Let_def)

lemma jan1_2021: "days_before_year 2021 = 737790"
  by (simp add: days_before_year_def)

lemma year_of_day_new_year: "year_of_day 737790 = 2021" "year_of_day 737789 = 2020"
  by (simp_all add: year_of_day_def)

lemma year_of_jan1_2014: "year_of (jan1 2014) = 2014"
  by (simp add: year_of_def jan1_def days_before_year_def year_of_day_def)

text \<open>
  C6: with \<open>force=True\<close>, \<open>add_year\<close> of either source asks the client for the year,
  whatever the attempted set and the series hold: the log of fetches grows by exactly
  that year.
\<close>

theorem forced_add_year_fetches:
  "fetches (snd (add_year GSOD client year True s)) = fetches s @ [year]
   \<and> fetches (snd (add_year ISD client year True s)) = fetches s @ [year]"
  by (simp add: add_year_fetches)

text \<open>
  C10: \<open>add_year\<close> without force, for a year that was attempted but whose first
  timestamp is not in the series, asks the client for nothing; it appends the all-null
  series of the year, sorts and resamples the whole series, saves it to the cache and
  returns.
\<close>

theorem attempted_year_without_anchor:
  assumes "year_fetch_attempted s year" and "\<not> year_in_series s year"
  shows "\<exists>s'. add_year k client year False s = (None, s')
           \<and> fetches s' = fetches s
           \<and> year_fetches_attempted s' = year_fetches_attempted s
           \<and> tempC s' = resample_mean (freq k) (sort_index (tempC s @ empty_series k year))
           \<and> cache s' = tempC s'
           \<and> (\<forall>p \<in> set (empty_series k year). snd p = None)"
proof -
  have "\<forall>p \<in> set (empty_series k year). snd p = None"
    by (cases k) (auto simp: empty_on_def)
  with assms show ?thesis
    by (simp add: add_year_def save_to_cache_def merge_def)
qed

theorem attempted_year_without_anchor_witness:
  "year_fetch_attempted \<lparr>tempC = [], year_fetches_attempted = {2014}, fetches = [2014], cache = []\<rparr> 2014
   \<and> \<not> year_in_series \<lparr>tempC = [], year_fetches_attempted = {2014}, fetches = [2014], cache = []\<rparr> 2014
   \<and> fetches (snd (add_year GSOD (\<lambda>y. Inr []) 2014 False
        \<lparr>tempC = [], year_fetches_attempted = {2014}, fetches = [2014], cache = []\<rparr>)) = [2014]"
proof -
  let ?s = "\<lparr>tempC = [], year_fetches_attempted = {2014::int}, fetches = [2014::int], cache = []\<rparr>"
  have h1: "year_fetch_attempted ?s 2014" by (simp add: year_fetch_attempted_def)
  have h2: "\<not> year_in_series ?s 2014" by (simp add: year_in_series_def index_of_def)
  from attempted_year_without_anchor [OF h1 h2, of GSOD "\<lambda>y. Inr []"]
  obtain s' where "add_year GSOD (\<lambda>y. Inr []) 2014 False ?s = (None, s')" and "fetches s' = fetches ?s"
    by blast
  then have "fetches (snd (add_year GSOD (\<lambda>y. Inr []) 2014 False ?s)) = [2014]" by simp
  with h1 h2 show ?thesis by blast
qed

text \<open>
  C4 (as the code has it): once a call of \<open>add_year_range\<close> without force has returned,
  every year of the range is in the attempted set, so a second call with the same range
  fetches nothing, and the first call has fetched no year more than once. The year is
  marked only after its fetch has returned (with or without data) and the merge is saved.
\<close>

theorem second_ensure_years_fetches_nothing:
  assumes "add_year_range k client start_year end_year False s = (None, s1)"
  shows "fst (add_year_range k client start_year end_year False s1) = None
       \<and> fetches (snd (add_year_range k client start_year end_year False s1)) = fetches s1
       \<and> (\<forall>y. count_list (fetches s1) y \<le> count_list (fetches s) y + 1)"
proof -
  let ?years = "[start_year..end_year]"
  from assms have r: "fst (add_years k client ?years False s) = None"
    and s1: "s1 = snd (add_years k client ?years False s)"
    by (simp_all add: add_year_range_def)
  from add_years_returned_attempted [OF r] s1 have "set ?years \<subseteq> year_fetches_attempted s1"
    by simp
  from add_years_all_attempted [OF this, of k client]
  have second: "fst (add_year_range k client start_year end_year False s1) = None
       \<and> fetches (snd (add_year_range k client start_year end_year False s1)) = fetches s1"
    by (simp add: add_year_range_def)
  have "count_list (fetches s1) y \<le> count_list (fetches s) y + 1" for y
  proof -
    have "count_list (fetches s1) y \<le> count_list (fetches s) y + count_list ?years y"
      unfolding s1 by (rule add_years_fetch_count)
    moreover have "count_list ?years y \<le> 1" by (rule count_list_distinct) simp
    ultimately show ?thesis by linarith
  qed
  with second show ?thesis by blast
qed

theorem second_ensure_years_fetches_nothing_witness:
  "fst (add_year_range GSOD (\<lambda>year. Inr []) 2014 2015 False
          \<lparr>tempC = [], year_fetches_attempted = {}, fetches = [], cache = []\<rparr>) = None
   \<and> fetches (snd (add_year_range GSOD (\<lambda>year. Inr []) 2014 2015 False
        (snd (add_year_range GSOD (\<lambda>year. Inr []) 2014 2015 False
           \<lparr>tempC = [], year_fetches_attempted = {}, fetches = [], cache = []\<rparr>))))
     = fetches (snd (add_year_range GSOD (\<lambda>year. Inr []) 2014 2015 False
           \<lparr>tempC = [], year_fetches_attempted = {}, fetches = [], cache = []\<rparr>))"
proof -
  let ?s = "\<lparr>tempC = [], year_fetches_attempted = {}, fetches = [], cache = []\<rparr>"
  let ?c = "\<lambda>year::int. Inr [] :: error + (timestamp \<times> float) list"
  have r: "fst (add_year_range GSOD ?c 2014 2015 False ?s) = None"
    unfolding add_year_range_def by (rule add_years_returns) simp
  then have h: "add_year_range GSOD ?c 2014 2015 False ?s
                 = (None, snd (add_year_range GSOD ?c 2014 2015 False ?s))"
    by (simp add: prod_eq_iff)
  from second_ensure_years_fetches_nothing [OF h] r show ?thesis by blast
qed

text \<open>
  A fetch that raises leaves \<open>add_year\<close> before the year is marked: the second call
  asks the client for the same year again.
\<close>

theorem retried_after_raising_fetch:
  "count_list
     (fetches (snd (add_year_range GSOD (\<lambda>year. Inl RemoteFetchError) 2014 2014 False
        (snd (add_year_range GSOD (\<lambda>year. Inl RemoteFetchError) 2014 2014 False
           \<lparr>tempC = [], year_fetches_attempted = {}, fetches = [], cache = []\<rparr>)))))
     2014 = 2"
  by (simp add: add_year_range_def add_years_step add_year_returns add_year_fetches add_year_attempted)

text \<open>
  C8 (as the code has it): when the constructor finds yesterday's timestamp in the series
  with a null value, it calls \<open>add_year(yesterday.year, force=True)\<close>: exactly one more
  fetch, of the year that yesterday falls in, whatever the attempted set holds; otherwise
  it fetches nothing more.
\<close>

theorem freshness_check_refetches_year_of_yesterday:
  assumes "init_years k client start_year end_year today
             \<lparr>tempC = cached, year_fetches_attempted = {}, fetches = [], cache = cached\<rparr>
           = (None, s1)"
  shows "fetches (snd (init k client cached start_year end_year today)) =
           (if map_of (tempC s1) (86400 * (today - 1)) = Some None
            then fetches s1 @ [year_of_day (today - 1)] else fetches s1)"
  using assms by (simp add: init_def check_for_recent_data_fetches)

theorem freshness_check_refetches_year_of_yesterday_witness:
  "init_years GSOD (\<lambda>year. Inr []) None None (days_before_year 2021)
      \<lparr>tempC = [(86400 * (days_before_year 2021 - 1), None)], year_fetches_attempted = {},
         fetches = [], cache = [(86400 * (days_before_year 2021 - 1), None)]\<rparr>
    = (None, \<lparr>tempC = [(86400 * (days_before_year 2021 - 1), None)], year_fetches_attempted = {},
         fetches = [], cache = [(86400 * (days_before_year 2021 - 1), None)]\<rparr>)
   \<and> fetches (snd (init GSOD (\<lambda>year. Inr []) [(86400 * (days_before_year 2021 - 1), None)]
                   None None (days_before_year 2021))) = [year_of_day (days_before_year 2021 - 1)]"
proof -
  let ?cached = "[(86400 * (days_before_year 2021 - 1), None :: float)]"
  let ?s = "\<lparr>tempC = ?cached, year_fetches_attempted = {}, fetches = [], cache = ?cached\<rparr>"
  let ?c = "\<lambda>year::int. Inr [] :: error + (timestamp \<times> float) list"
  have h: "init_years GSOD ?c None None (days_before_year 2021) ?s = (None, ?s)"
    by (simp add: init_years_def)
  from freshness_check_refetches_year_of_yesterday [OF h] h show ?thesis by simp
qed

text \<open>
  On 1 January the year of yesterday is not the current year: a source built on
  2021-01-01 over a series whose entry for 2020-12-31 is null fetches 2020.
\<close>

theorem freshness_check_on_new_years_day:
  "fetches (snd (init GSOD (\<lambda>year. Inr []) [(86400 * (days_before_year 2021 - 1), None)]
                   None None (days_before_year 2021))) = [2020]
   \<and> year_of_day (days_before_year 2021) = 2021"
  by (simp add: init_def init_years_def check_for_recent_data_fetches jan1_2021 year_of_day_new_year)

text \<open>
  C5 (as the code has it): for an index whose frequency is neither daily nor, on the
  hourly source, hourly, \<open>indexed_temperatures\<close> never returns data. It raises the
  \<open>ValueError\<close> of the unsupported frequency whenever the year fetches of the coverage
  check, which runs first, have returned; a fetch that raises there ends the call with
  its own error.
\<close>

theorem unsupported_frequency_never_returns_data:
  assumes "index_freq index \<noteq> Some ''D''"
    and "index_freq index = Some ''H'' \<longrightarrow> k = GSOD"
  shows "\<exists>e. fst (indexed_temperatures k client index u s) = Inl e
           \<and> (fst (verify_index_presence k client index s) = None \<longrightarrow> (\<exists>msg. e = ValueError msg))
           \<and> (\<forall>e'. fst (verify_index_presence k client index s) = Some e' \<longrightarrow> e = e')"
  using assms
  by (cases "verify_index_presence k client index s")
     (auto simp: indexed_temperatures_def split: option.splits)

theorem unsupported_frequency_never_returns_data_witness:
  "\<exists>msg. fst (indexed_temperatures GSOD (\<lambda>year. Inr [])
          \<lparr>index_freq = Some ''15T'', stamps = []\<rparr> degF
          \<lparr>tempC = [], year_fetches_attempted = {}, fetches = [], cache = []\<rparr>)
   = Inl (ValueError msg)"
proof -
  let ?index = "\<lparr>index_freq = Some ''15T'', stamps = []\<rparr>"
  let ?s = "\<lparr>tempC = [], year_fetches_attempted = {}, fetches = [], cache = []\<rparr>"
  let ?c = "\<lambda>year::int. Inr [] :: error + (timestamp \<times> float) list"
  have h1: "index_freq ?index \<noteq> Some ''D''" by simp
  have h2: "index_freq ?index = Some ''H'' \<longrightarrow> GSOD = GSOD" by simp
  have v: "fst (verify_index_presence GSOD ?c ?index ?s) = None"
    by (simp add: verify_index_presence_def)
  from unsupported_frequency_never_returns_data [OF h1 h2, of ?c degF ?s] v
  show ?thesis by auto
qed

text \<open>
  With a client that raises, the error of the call is the client's, not the
  \<open>ValueError\<close>.
\<close>

theorem unsupported_frequency_after_raising_fetch:
  "fst (indexed_temperatures GSOD (\<lambda>year. Inl RemoteFetchError)
          \<lparr>index_freq = Some ''15T'', stamps = [jan1 2014]\<rparr> degF
          \<lparr>tempC = [], year_fetches_attempted = {}, fetches = [], cache = []\<rparr>)
   = Inl RemoteFetchError"
  by (simp add: indexed_temperatures_def verify_index_presence_def year_of_jan1_2014
        add_years_step add_year_def year_fetch_attempted_def)

end
